theory Spec2Isabelle
  imports Main
begin

section \<open>The error-propagation macros of \<^verbatim>\<open>include/gdf-arrow/errorutils.h\<close>\<close>

text \<open>
  The header defines three statement macros:
  \<^verbatim>\<open>
  #define CUDA_TRY(x) if ((x)!=cudaSuccess) return GDF_ARROW_CUDA_ERROR;
  #define CUDA_CHECK_LAST() CUDA_TRY(cudaPeekAtLastError())
  #define GDF_ARROW_REQUIRE(F, S) if (!(F)) return (S);
  \<close>
  Each expands to an \<open>if\<close> without \<open>else\<close> whose body is a \<open>return\<close>. The macros are
  modelled where they are used: as one statement in the statement sequence of a function
  body, and, separately, directly before an \<open>else\<close> of the caller, where the \<open>if\<close> of the
  expansion takes that \<open>else\<close>. A macro argument is an expression of C, which may have side
  effects, so it is a function from the program state to a value and the state after its
  evaluation.
\<close>

subsection \<open>Expressions and statements of the enclosing function\<close>

type_synonym ('v, 's) expr = "'s \<Rightarrow> 'v \<times> 's"

text \<open>
  A statement either falls through to the statement after it, or leaves the enclosing
  function with a return value. Both carry the program state reached.
\<close>

datatype ('r, 's) outcome = Continue 's | Return 'r 's

type_synonym ('r, 's) stmt = "'s \<Rightarrow> ('r, 's) outcome"

fun state_of :: "('r, 's) outcome \<Rightarrow> 's" where
  "state_of (Continue s) = s"
| "state_of (Return r s) = s"

fun returned :: "('r, 's) outcome \<Rightarrow> 'r option" where
  "returned (Continue s) = None"
| "returned (Return r s) = Some r"

text \<open>A constant or enumerator: it has a value and no effect.\<close>

definition c_const :: "'v \<Rightarrow> ('v, 's) expr" where
  "c_const v = (\<lambda>s. (v, s))"

text \<open>
  \<open>a != b\<close>. Both operands are evaluated. In the header the right operand is an
  enumerator, so the order in which the operands are evaluated cannot be observed.
\<close>

definition c_ne :: "('v, 's) expr \<Rightarrow> ('v, 's) expr \<Rightarrow> (bool, 's) expr" where
  "c_ne a b = (\<lambda>s. case a s of (va, s1) \<Rightarrow> (case b s1 of (vb, s2) \<Rightarrow> (va \<noteq> vb, s2)))"

text \<open>\<open>!a\<close>.\<close>

definition c_not :: "(bool, 's) expr \<Rightarrow> (bool, 's) expr" where
  "c_not a = (\<lambda>s. case a s of (v, s1) \<Rightarrow> (\<not> v, s1))"

text \<open>\<open>return e;\<close> evaluates \<open>e\<close> and leaves the function with its value.\<close>

definition c_return :: "('r, 's) expr \<Rightarrow> ('r, 's) stmt" where
  "c_return e = (\<lambda>s. case e s of (v, s1) \<Rightarrow> Return v s1)"

text \<open>\<open>if (c) body\<close>, with no \<open>else\<close>.\<close>

definition c_if :: "(bool, 's) expr \<Rightarrow> ('r, 's) stmt \<Rightarrow> ('r, 's) stmt" where
  "c_if c body = (\<lambda>s. case c s of (b, s1) \<Rightarrow> if b then body s1 else Continue s1)"

text \<open>\<open>e;\<close> evaluates \<open>e\<close> and drops its value.\<close>

definition c_expr_stmt :: "('v, 's) expr \<Rightarrow> ('r, 's) stmt" where
  "c_expr_stmt e = (\<lambda>s. Continue (snd (e s)))"

text \<open>
  \<open>a b\<close>, one statement after the other: \<open>b\<close> runs only if \<open>a\<close> falls through.
\<close>

definition c_seq :: "('r, 's) stmt \<Rightarrow> ('r, 's) stmt \<Rightarrow> ('r, 's) stmt" where
  "c_seq a b = (\<lambda>s. case a s of Continue s1 \<Rightarrow> b s1 | Return r s1 \<Rightarrow> Return r s1)"

subsection \<open>The status codes\<close>

text \<open>
  Modelled from the spec: the status type of the GPU runtime, \<open>cudaError_t\<close>, and its
  "designated success value", \<open>cudaSuccess\<close>, are declared in the runtime's headers, outside
  this repository. The type is an enumeration of C, kept by its integer codes; the success
  value is the code 0. No property below depends on the code chosen for it.
\<close>

type_synonym cudaError_t = int

definition cudaSuccess :: cudaError_t where
  "cudaSuccess = 0"

text \<open>
  Modelled from the spec: the status-code enumeration of the library is declared outside
  this header ("an implicit status-code enumeration (values such as a generic success code,
  a CUDA-error code, and caller-supplied failure codes)"). The header names one of its
  enumerators, \<open>GDF_ARROW_CUDA_ERROR\<close>; every other status is kept by its integer code.
\<close>

datatype gdf_arrow_error = GDF_ARROW_CUDA_ERROR | GDF_ARROW_STATUS int

subsection \<open>The macros\<close>

text \<open>\<^verbatim>\<open>#define CUDA_TRY(x) if ((x)!=cudaSuccess) return GDF_ARROW_CUDA_ERROR;\<close>\<close>

definition CUDA_TRY :: "(cudaError_t, 's) expr \<Rightarrow> (gdf_arrow_error, 's) stmt" where
  "CUDA_TRY x = c_if (c_ne x (c_const cudaSuccess)) (c_return (c_const GDF_ARROW_CUDA_ERROR))"

text \<open>
  Modelled from the spec: the GPU runtime is outside this repository. It records "the most
  recent asynchronous error", and \<open>cudaPeekAtLastError()\<close> "queries" it: the call returns
  the recorded error and leaves the record as it is. The rest of the program state is the
  extension of the record.
\<close>

record cuda_runtime =
  last_error :: cudaError_t

definition cudaPeekAtLastError :: "(cudaError_t, 'a cuda_runtime_scheme) expr" where
  "cudaPeekAtLastError = (\<lambda>s. (last_error s, s))"

text \<open>\<^verbatim>\<open>#define CUDA_CHECK_LAST() CUDA_TRY(cudaPeekAtLastError())\<close>\<close>

definition CUDA_CHECK_LAST :: "(gdf_arrow_error, 'a cuda_runtime_scheme) stmt" where
  "CUDA_CHECK_LAST = CUDA_TRY cudaPeekAtLastError"

text \<open>\<^verbatim>\<open>#define GDF_ARROW_REQUIRE(F, S) if (!(F)) return (S);\<close>\<close>

definition GDF_ARROW_REQUIRE :: "(bool, 's) expr \<Rightarrow> ('r, 's) expr \<Rightarrow> ('r, 's) stmt" where
  "GDF_ARROW_REQUIRE F S = c_if (c_not F) (c_return S)"

subsection \<open>Observing evaluations\<close>

text \<open>
  To count how often a macro evaluates an argument, the argument is given a label and the
  state a trace: each evaluation of the labelled expression appends its label.
\<close>

definition traced :: "'l \<Rightarrow> ('v, 's) expr \<Rightarrow> ('v, 'l list \<times> 's) expr" where
  "traced l e = (\<lambda>(t, s). case e s of (v, s1) \<Rightarrow> (v, (t @ [l], s1)))"

text \<open>
  The check of the last error as the spec words it: it "queries the GPU runtime for the most
  recent asynchronous error and applies the same guard logic", that is, the query is made
  first and the guard is then applied to the status obtained.
\<close>

definition last_error_check :: "(gdf_arrow_error, 'a cuda_runtime_scheme) stmt" where
  "last_error_check = (\<lambda>s. case cudaPeekAtLastError s of (e, s1) \<Rightarrow> CUDA_TRY (c_const e) s1)"

subsection \<open>An expansion directly before an \<open>else\<close> of the caller\<close>

text \<open>\<open>if (c) a else b\<close>.\<close>

definition c_if_else :: "(bool, 's) expr \<Rightarrow> ('r, 's) stmt \<Rightarrow> ('r, 's) stmt \<Rightarrow> ('r, 's) stmt" where
  "c_if_else c a b = (\<lambda>s. case c s of (v, s1) \<Rightarrow> if v then a s1 else b s1)"

text \<open>
  The expansions are \<open>if\<close> statements with no \<open>else\<close> and no enclosing braces, and an
  \<open>else\<close> of C belongs to the nearest \<open>if\<close> before it that has none. So where the caller
  writes \<^verbatim>\<open>CUDA_TRY(x) else E\<close>, the tokens are
  \<^verbatim>\<open>if ((x)!=cudaSuccess) return GDF_ARROW_CUDA_ERROR; else E\<close>
  and \<open>E\<close> is the \<open>else\<close> branch of the macro's own \<open>if\<close>. (The macro ends in its own
  semicolon; with a second one written after the call, \<open>else\<close> follows an empty statement
  and the program is rejected.)
\<close>

definition CUDA_TRY_before_else ::
  "(cudaError_t, 's) expr \<Rightarrow> (gdf_arrow_error, 's) stmt \<Rightarrow> (gdf_arrow_error, 's) stmt" where
  "CUDA_TRY_before_else x E =
     c_if_else (c_ne x (c_const cudaSuccess)) (c_return (c_const GDF_ARROW_CUDA_ERROR)) E"

text \<open>
  Likewise \<^verbatim>\<open>GDF_ARROW_REQUIRE(F, S) else E\<close> is \<^verbatim>\<open>if (!(F)) return (S); else E\<close>.
\<close>

definition GDF_ARROW_REQUIRE_before_else ::
  "(bool, 's) expr \<Rightarrow> ('r, 's) expr \<Rightarrow> ('r, 's) stmt \<Rightarrow> ('r, 's) stmt" where
  "GDF_ARROW_REQUIRE_before_else F S E = c_if_else (c_not F) (c_return S) E"

text \<open>A statement of a caller, \<open>n += 100;\<close>, on a state that is the counter \<open>n\<close>.\<close>

definition add_100 :: "('r, nat) stmt" where
  "add_100 = (\<lambda>n. Continue (n + 100))"

section \<open>Properties\<close>

subsection \<open>What each macro computes\<close>

lemma CUDA_TRY_eval:
  "CUDA_TRY x s =
     (if fst (x s) \<noteq> cudaSuccess then Return GDF_ARROW_CUDA_ERROR (snd (x s))
      else Continue (snd (x s)))"
  by (simp add: CUDA_TRY_def c_if_def c_ne_def c_const_def c_return_def split: prod.split)

lemma GDF_ARROW_REQUIRE_eval:
  "GDF_ARROW_REQUIRE F S s =
     (if fst (F s) then Continue (snd (F s))
      else Return (fst (S (snd (F s)))) (snd (S (snd (F s)))))"
  by (simp add: GDF_ARROW_REQUIRE_def c_if_def c_not_def c_return_def split: prod.split)

lemma CUDA_CHECK_LAST_eval:
  "CUDA_CHECK_LAST s =
     (if last_error s \<noteq> cudaSuccess then Return GDF_ARROW_CUDA_ERROR s else Continue s)"
  by (simp add: CUDA_CHECK_LAST_def CUDA_TRY_eval cudaPeekAtLastError_def)

lemma traced_eval:
  "traced l e (t, s) = (fst (e s), (t @ [l], snd (e s)))"
  by (simp add: traced_def split: prod.split)

lemma GDF_ARROW_REQUIRE_failure_trace:
  assumes "\<not> fst (F s)"
  shows "GDF_ARROW_REQUIRE (traced lF F) (traced lS S) (t, s) =
           Return (fst (S (snd (F s)))) (t @ [lF, lS], snd (S (snd (F s))))"
  using assms by (simp add: GDF_ARROW_REQUIRE_eval traced_eval)

lemma CUDA_TRY_before_else_eval:
  "CUDA_TRY_before_else x E s =
     (if fst (x s) \<noteq> cudaSuccess then Return GDF_ARROW_CUDA_ERROR (snd (x s))
      else E (snd (x s)))"
  by (simp add: CUDA_TRY_before_else_def c_if_else_def c_ne_def c_const_def c_return_def
      split: prod.split)

lemma GDF_ARROW_REQUIRE_before_else_eval:
  "GDF_ARROW_REQUIRE_before_else F S E s =
     (if fst (F s) then E (snd (F s))
      else Return (fst (S (snd (F s)))) (snd (S (snd (F s)))))"
  by (simp add: GDF_ARROW_REQUIRE_before_else_def c_if_else_def c_not_def c_return_def
      split: prod.split)

text \<open>
  On the failure path the placement makes no difference: before an \<open>else\<close> of the caller
  the guards return as they do in a statement sequence.
\<close>

lemma CUDA_TRY_before_else_failure:
  "fst (x s) \<noteq> cudaSuccess \<Longrightarrow> CUDA_TRY_before_else x E s = CUDA_TRY x s"
  by (simp add: CUDA_TRY_before_else_eval CUDA_TRY_eval)

lemma GDF_ARROW_REQUIRE_before_else_failure:
  "\<not> fst (F s) \<Longrightarrow> GDF_ARROW_REQUIRE_before_else F S E s = GDF_ARROW_REQUIRE F S s"
  by (simp add: GDF_ARROW_REQUIRE_before_else_eval GDF_ARROW_REQUIRE_eval)

subsection \<open>The CUDA-call guard\<close>

text \<open>
  C1. When the wrapped expression \<open>x\<close> evaluates to a status other than \<open>cudaSuccess\<close>,
  \<open>CUDA_TRY(x)\<close> makes the enclosing function return \<open>GDF_ARROW_CUDA_ERROR\<close> at once: whatever
  statements \<open>rest\<close> follow the macro, the function returns that status in the state left by
  the evaluation of \<open>x\<close>, so none of \<open>rest\<close> has run.
\<close>

theorem CUDA_TRY_failure_returns:
  assumes "fst (x s) \<noteq> cudaSuccess"
  shows "c_seq (CUDA_TRY x) rest s = Return GDF_ARROW_CUDA_ERROR (snd (x s))"
  using assms by (simp add: c_seq_def CUDA_TRY_eval)

theorem CUDA_TRY_failure_returns_witness:
  "fst ((\<lambda>n::nat. (2::int, Suc n)) 0) \<noteq> cudaSuccess \<and>
   c_seq (CUDA_TRY (\<lambda>n::nat. (2, Suc n))) (c_return (c_const (GDF_ARROW_STATUS 0))) 0 =
     Return GDF_ARROW_CUDA_ERROR 1"
proof -
  have h: "fst ((\<lambda>n::nat. (2::int, Suc n)) 0) \<noteq> cudaSuccess"
    by (simp add: cudaSuccess_def)
  show ?thesis
    using h CUDA_TRY_failure_returns
      [of "\<lambda>n::nat. (2, Suc n)" 0 "c_return (c_const (GDF_ARROW_STATUS 0))"]
    by simp
qed

text \<open>
  C4, as amended. When \<open>x\<close> evaluates to \<open>cudaSuccess\<close> and \<open>CUDA_TRY(x)\<close> stands as a
  statement of its own in a statement sequence (not directly before an \<open>else\<close> of the
  caller), the macro does not return: it falls through in the state left by the evaluation
  of \<open>x\<close>, and the statements after it run exactly as they do after the bare statement
  \<open>x;\<close>.
\<close>

theorem CUDA_TRY_success_continues:
  assumes "fst (x s) = cudaSuccess"
  shows "CUDA_TRY x s = Continue (snd (x s)) \<and>
         c_seq (CUDA_TRY x) rest s = c_seq (c_expr_stmt x) rest s"
  using assms by (simp add: c_seq_def c_expr_stmt_def CUDA_TRY_eval)

theorem CUDA_TRY_success_continues_witness:
  "fst ((\<lambda>n::nat. (0::int, Suc n)) 0) = cudaSuccess \<and>
   CUDA_TRY (\<lambda>n::nat. (0, Suc n)) 0 = Continue 1 \<and>
   c_seq (CUDA_TRY (\<lambda>n::nat. (0, Suc n))) (c_return (c_const (GDF_ARROW_STATUS 0))) 0 =
     c_seq (c_expr_stmt (\<lambda>n::nat. (0::int, Suc n))) (c_return (c_const (GDF_ARROW_STATUS 0))) 0"
proof -
  have h: "fst ((\<lambda>n::nat. (0::int, Suc n)) 0) = cudaSuccess"
    by (simp add: cudaSuccess_def)
  show ?thesis
    using h CUDA_TRY_success_continues
      [of "\<lambda>n::nat. (0, Suc n)" 0 "c_return (c_const (GDF_ARROW_STATUS 0))"]
    by simp
qed

text \<open>
  The claim C4 as first stated, for every use of the macro, fails directly before an
  \<open>else\<close> of the caller. In
  \<^verbatim>\<open>if (c) CUDA_TRY(x) else n += 100;\<close>
  with \<open>c\<close> true, \<open>x\<close> evaluating to \<open>cudaSuccess\<close> and \<open>n = 0\<close>, the \<open>else\<close> belongs to the
  macro's \<open>if\<close> and runs, leaving \<open>n = 100\<close>; with the guard absent,
  \<^verbatim>\<open>if (c) x; else n += 100;\<close>
  leaves \<open>n = 0\<close>.
\<close>

theorem CUDA_TRY_success_else_counterexample:
  "fst (c_const cudaSuccess (0::nat)) = cudaSuccess \<and>
   c_if (c_const True) (CUDA_TRY_before_else (c_const cudaSuccess) add_100) 0 = Continue 100 \<and>
   c_if_else (c_const True) (c_expr_stmt (c_const cudaSuccess)) add_100 0 =
     (Continue 0 :: (gdf_arrow_error, nat) outcome) \<and>
   c_if (c_const True) (CUDA_TRY_before_else (c_const cudaSuccess) add_100) 0 \<noteq>
     c_if_else (c_const True) (c_expr_stmt (c_const cudaSuccess)) add_100 0"
  by (simp add: CUDA_TRY_before_else_eval c_if_def c_if_else_def c_const_def c_expr_stmt_def
      add_100_def)

text \<open>
  C5. The status returned by \<open>CUDA_TRY\<close> on failure is one fixed value: for any two
  expressions that evaluate to statuses other than \<open>cudaSuccess\<close>, in any two states, the
  enclosing function returns the same status, \<open>GDF_ARROW_CUDA_ERROR\<close>. Which error the GPU
  runtime reported cannot be read off the returned status.
\<close>

theorem CUDA_TRY_failure_status_fixed:
  assumes "fst (x1 s1) \<noteq> cudaSuccess" and "fst (x2 s2) \<noteq> cudaSuccess"
  shows "returned (CUDA_TRY x1 s1) = returned (CUDA_TRY x2 s2) \<and>
         returned (CUDA_TRY x1 s1) = Some GDF_ARROW_CUDA_ERROR"
  using assms by (simp add: CUDA_TRY_eval)

theorem CUDA_TRY_failure_status_fixed_witness:
  "fst ((\<lambda>n::nat. (2::int, Suc n)) 0) \<noteq> cudaSuccess \<and>
   fst ((\<lambda>n::nat. (700::int, n)) 5) \<noteq> cudaSuccess \<and>
   returned (CUDA_TRY (\<lambda>n::nat. (2, Suc n)) 0) = returned (CUDA_TRY (\<lambda>n::nat. (700, n)) 5) \<and>
   returned (CUDA_TRY (\<lambda>n::nat. (2, Suc n)) 0) = Some GDF_ARROW_CUDA_ERROR"
proof -
  have h1: "fst ((\<lambda>n::nat. (2::int, Suc n)) 0) \<noteq> cudaSuccess"
    by (simp add: cudaSuccess_def)
  have h2: "fst ((\<lambda>n::nat. (700::int, n)) 5) \<noteq> cudaSuccess"
    by (simp add: cudaSuccess_def)
  show ?thesis
    using h1 h2 CUDA_TRY_failure_status_fixed
      [of "\<lambda>n::nat. (2, Suc n)" 0 "\<lambda>n::nat. (700, n)" 5]
    by auto
qed

text \<open>
  C7. \<open>CUDA_TRY(x)\<close> evaluates \<open>x\<close> exactly once, on the success path and on the failure
  path: with \<open>x\<close> labelled, the macro appends one label to the trace, and the state it
  leaves is the state after one evaluation of \<open>x\<close>.
\<close>

theorem CUDA_TRY_evaluates_once:
  "CUDA_TRY (traced l x) (t, s) =
     (if fst (x s) = cudaSuccess then Continue (t @ [l], snd (x s))
      else Return GDF_ARROW_CUDA_ERROR (t @ [l], snd (x s)))"
  by (simp add: CUDA_TRY_eval traced_eval)

subsection \<open>The last-error check\<close>

text \<open>
  C3. \<open>CUDA_CHECK_LAST()\<close> behaves as \<open>CUDA_TRY\<close> applied to the result of querying the
  runtime's most recent error with \<open>cudaPeekAtLastError\<close>: in every state of the runtime
  it has the same outcome (fall through or early return, returned status, state reached) as
  \<open>CUDA_TRY(cudaPeekAtLastError())\<close>, and as the check that queries first and guards the
  status obtained.
\<close>

theorem CUDA_CHECK_LAST_guards_peek:
  "CUDA_CHECK_LAST s = CUDA_TRY cudaPeekAtLastError s \<and>
   CUDA_CHECK_LAST s = last_error_check s"
  by (simp add: CUDA_CHECK_LAST_def last_error_check_def CUDA_TRY_eval c_const_def
      split: prod.split)

text \<open>
  C9. \<open>CUDA_CHECK_LAST()\<close> only reads the runtime's recorded last error: whether the check
  falls through or returns, the state after it is the state before it, and so is the
  recorded last error.
\<close>

theorem CUDA_CHECK_LAST_keeps_last_error:
  "state_of (CUDA_CHECK_LAST s) = s \<and>
   last_error (state_of (CUDA_CHECK_LAST s)) = last_error s"
  by (simp add: CUDA_CHECK_LAST_eval)

subsection \<open>The precondition guard\<close>




text \<open>
  C8. \<open>GDF_ARROW_REQUIRE(F, S)\<close> evaluates \<open>S\<close> only when \<open>F\<close> evaluates to false. When \<open>F\<close>
  evaluates to true, the trace holds the one evaluation of \<open>F\<close> and no evaluation of \<open>S\<close>,
  and the state is the one left by \<open>F\<close>: no effect of \<open>S\<close> has taken place.
\<close>

theorem GDF_ARROW_REQUIRE_status_not_evaluated:
  assumes "fst (F s)"
  shows "GDF_ARROW_REQUIRE (traced lF F) (traced lS S) (t, s) = Continue (t @ [lF], snd (F s))"
  using assms by (simp add: GDF_ARROW_REQUIRE_eval traced_eval)

theorem GDF_ARROW_REQUIRE_status_not_evaluated_witness:
  "fst ((\<lambda>n::nat. (0 < n, n)) 1) \<and>
   GDF_ARROW_REQUIRE (traced ''F'' (\<lambda>n::nat. (0 < n, n)))
     (traced ''S'' (\<lambda>n. (GDF_ARROW_STATUS 3, Suc n))) ([], 1) = Continue ([''F''], 1)"
  using GDF_ARROW_REQUIRE_status_not_evaluated
    [of "\<lambda>n::nat. (0 < n, n)" 1 "''F''" "''S''" "\<lambda>n. (GDF_ARROW_STATUS 3, Suc n)" "[]"]
  by simp

subsection \<open>The failure path of the three guards\<close>

text \<open>
  C6. On a failure, each guard does one early return and nothing else. The outcome is a
  return whose state is the state left by evaluating the macro's arguments once, in the
  order of the expansion: the trace holds one evaluation of the wrapped call for
  \<open>CUDA_TRY\<close> (no retry), one of \<open>F\<close> followed by one of \<open>S\<close> for \<open>GDF_ARROW_REQUIRE\<close>, and
  \<open>CUDA_CHECK_LAST\<close> returns in the state it started in. The guard adds no change of its
  own to the state, so it has neither logged nor recovered.
\<close>

theorem guards_fail_by_one_return:
  "(fst (x s) \<noteq> cudaSuccess \<longrightarrow>
      CUDA_TRY (traced l x) (t, s) = Return GDF_ARROW_CUDA_ERROR (t @ [l], snd (x s))) \<and>
   (last_error r \<noteq> cudaSuccess \<longrightarrow> CUDA_CHECK_LAST r = Return GDF_ARROW_CUDA_ERROR r) \<and>
   (\<not> fst (F s) \<longrightarrow>
      GDF_ARROW_REQUIRE (traced lF F) (traced lS S) (t, s) =
        Return (fst (S (snd (F s)))) (t @ [lF, lS], snd (S (snd (F s)))))"
  by (simp add: CUDA_TRY_eval CUDA_CHECK_LAST_eval GDF_ARROW_REQUIRE_failure_trace traced_eval)

theorem guards_fail_by_one_return_witness:
  "fst ((\<lambda>n::nat. (2::int, Suc n)) 0) \<noteq> cudaSuccess \<and>
   CUDA_TRY (traced ''x'' (\<lambda>n::nat. (2, Suc n))) ([], 0) =
     Return GDF_ARROW_CUDA_ERROR ([''x''], 1) \<and>
   last_error \<lparr>last_error = 2\<rparr> \<noteq> cudaSuccess \<and>
   CUDA_CHECK_LAST \<lparr>last_error = 2\<rparr> = Return GDF_ARROW_CUDA_ERROR \<lparr>last_error = 2\<rparr> \<and>
   \<not> fst ((\<lambda>n::nat. (0 < n, n)) 0) \<and>
   GDF_ARROW_REQUIRE (traced ''F'' (\<lambda>n::nat. (0 < n, n)))
     (traced ''S'' (\<lambda>n. (GDF_ARROW_STATUS 3, Suc n))) ([], 0) =
     Return (GDF_ARROW_STATUS 3) ([''F'', ''S''], 1)"
  using guards_fail_by_one_return
    [of "\<lambda>n::nat. (2, Suc n)" 0 "''x''" "[]" "\<lparr>last_error = 2\<rparr>"
        "\<lambda>n::nat. (0 < n, n)" "''F''" "''S''" "\<lambda>n. (GDF_ARROW_STATUS 3, Suc n)"]
  by (simp add: cudaSuccess_def)

end
